theory Spec2Isabelle
  imports Complex_Main "HOL-Library.Sublist"
begin

section \<open>Strings\<close>

text \<open>
  A Python \<open>str\<close> is modelled by the list of the bytes of its UTF-8 encoding
  (\<^typ>\<open>string\<close>). The string operations the downloader applies with ASCII arguments
  (\<open>in\<close>, \<open>replace\<close>, \<open>split\<close>, \<open>endswith\<close>, slicing after \<open>endswith\<close>) act on these
  bytes as they act on the characters, since an ASCII byte never occurs inside the
  encoding of another character. The operations of Python that depend on the Unicode
  tables or on the platform (\<open>upper\<close>, \<open>strip\<close>, \<open>urllib.parse.quote\<close> and \<open>unquote\<close>,
  \<open>os.path\<close>, \<open>float\<close>, the rounding of floating-point arithmetic, \<open>time.sleep\<close>) are
  parameters of the model, collected in the record \<open>lib\<close> below.
\<close>

text \<open>\<open>sub in s\<close> on strings.\<close>

fun contains :: "string \<Rightarrow> string \<Rightarrow> bool" where
  "contains sub [] = (sub = [])"
| "contains sub (c # cs) = (prefix sub (c # cs) \<or> contains sub cs)"

text \<open>\<open>s.replace(old, new)\<close> for a non-empty \<open>old\<close>: every occurrence, found from
  left to right without overlap, is replaced.\<close>

fun str_replace :: "string \<Rightarrow> string \<Rightarrow> string \<Rightarrow> string" where
  "str_replace old new [] = []"
| "str_replace old new (c # cs) =
     (if old \<noteq> [] \<and> prefix old (c # cs)
      then new @ str_replace old new (drop (length old - 1) cs)
      else c # str_replace old new cs)"

text \<open>\<open>s.split('(')[1]\<close>: the text between the first and the second \<open>(\<close>;
  an \<open>IndexError\<close> (here \<open>None\<close>) when \<open>s\<close> has no \<open>(\<close>.\<close>

definition second_paren_field :: "string \<Rightarrow> string option" where
  "second_paren_field s =
     (case dropWhile (\<lambda>c. c \<noteq> CHR ''('') s of
        [] \<Rightarrow> None
      | _ # rest \<Rightarrow> Some (takeWhile (\<lambda>c. c \<noteq> CHR ''('') rest))"

text \<open>\<open>s.split(sep)[0]\<close> for a non-empty \<open>sep\<close>: the text before the first
  occurrence of \<open>sep\<close>, all of \<open>s\<close> when there is none.\<close>

fun before_sep :: "string \<Rightarrow> string \<Rightarrow> string" where
  "before_sep sep [] = []"
| "before_sep sep (c # cs) = (if prefix sep (c # cs) then [] else c # before_sep sep cs)"

text \<open>\<open>f"{n:02d}"\<close> for a natural number: its decimal digits, padded with a zero
  to two places.\<close>

definition digit_char :: "nat \<Rightarrow> char" where
  "digit_char d = char_of (48 + d)"

fun decimal :: "nat \<Rightarrow> string" where
  "decimal n = (if n < 10 then [digit_char n] else decimal (n div 10) @ [digit_char (n mod 10)])"

declare decimal.simps [simp del]

definition fmt_02d :: "nat \<Rightarrow> string" where
  "fmt_02d n = (if n < 10 then CHR ''0'' # decimal n else decimal n)"

section \<open>\<open>sanitize_filename\<close>\<close>

definition forbidden_chars :: "char list" where
  "forbidden_chars = [CHR 0x5C, CHR ''/'', CHR '':'', CHR ''*'', CHR ''?'', CHR 0x22,
     CHR ''<'', CHR ''>'', CHR ''|'']"

definition sanitize_filename :: "string \<Rightarrow> string" where
  "sanitize_filename filename =
     foldl (\<lambda>name ch. str_replace [ch] ''_'' name) filename forbidden_chars"

section \<open>The world outside the program\<close>

text \<open>
  What \<open>urllib.request.urlopen\<close> and the other library calls raise.
  \<open>urllib.error.HTTPError\<close> (an answer with an error status such as 404 or 503) is a
  subclass of \<open>urllib.error.URLError\<close>, so a handler for \<open>URLError\<close> catches both;
  \<open>OtherError\<close> stands for every exception that is not a \<open>URLError\<close>.
\<close>

datatype exn = URLError string | HTTPError nat | OtherError string

fun is_URLError :: "exn \<Rightarrow> bool" where
  "is_URLError (URLError reason) = True"
| "is_URLError (HTTPError status) = True"
| "is_URLError (OtherError msg) = False"

text \<open>A hyperlink as BeautifulSoup gives it: \<open>link.text\<close>, \<open>link.get('href')\<close> and
  \<open>link.parent.text\<close> (\<open>None\<close> when the link has no parent).\<close>

record anchor =
  a_text :: string
  a_href :: "string option"
  a_parent_text :: "string option"

text \<open>
  A parsed page, as far as the downloader looks at it:
  the text of the first \<open>h2\<close>; the rows (\<open>tr\<close>) of the element with id \<open>songlist\<close>,
  each row given by its cells of class \<open>clickable-row\<close> and each cell by its first link;
  the texts of the \<open>b\<close> elements inside the first \<open>p align="left"\<close>; all the links of
  the page in document order; the \<open>src\<close> of the first \<open>audio\<close> element.
\<close>

record page =
  page_h2 :: "string option"
  page_songlist :: "anchor option list list option"
  page_title_bolds :: "string list option"
  page_anchors :: "anchor list"
  page_audio_src :: "string option"

text \<open>The \<open>Content-Length\<close> header: absent, a decimal integer, or text that \<open>int\<close>
  rejects.\<close>

datatype header = NoHeader | HeaderInt int | HeaderBad

text \<open>An answer of the server: its \<open>Content-Length\<close>, the number of bytes the body
  delivers before it ends, whether it ends with an exception (a connection reset)
  rather than with the end of the stream, and the page the body parses to.\<close>

record response =
  resp_content_length :: header
  resp_body_len :: nat
  resp_read_fails :: bool
  resp_page :: page

datatype outcome = Ok response | Raise exn

text \<open>A Python \<open>float\<close>: a finite number, or one of \<open>inf\<close>, \<open>-inf\<close> and \<open>nan\<close>.\<close>

datatype pyfloat = Finite real | NonFinite

text \<open>
  The state the program acts on: \<open>net w url k\<close> is how the server answers when \<open>url\<close> is
  opened as the request number \<open>k\<close> of the run; \<open>requests\<close> is the list of the URLs
  opened so far and \<open>sleeps\<close> the list of the delays slept so far (both oldest first);
  \<open>fs\<close> maps the path of every existing file to its size in bytes; \<open>dirs\<close> are the paths
  of the existing directories; \<open>writable p\<close> tells whether the system lets the program
  create or truncate the file \<open>p\<close> once its directory exists; \<open>can_mkdir d\<close> tells
  whether \<open>os.makedirs(d)\<close> succeeds; \<open>retag p n\<close> is the size of the file \<open>p\<close> of size
  \<open>n\<close> after the tagging library has saved its metadata. A file or directory is
  identified with the path string that names it. Log lines and the progress bar are
  not part of the state.
\<close>

record world =
  net :: "string \<Rightarrow> nat \<Rightarrow> outcome"
  requests :: "string list"
  sleeps :: "real list"
  fs :: "string \<rightharpoonup> nat"
  dirs :: "string set"
  writable :: "string \<Rightarrow> bool"
  can_mkdir :: "string \<Rightarrow> bool"
  retag :: "string \<Rightarrow> nat \<Rightarrow> nat"

text \<open>
  The functions of Python and of its library that the model takes as they are:
  \<open>os.path.join\<close>, \<open>os.path.basename\<close> and \<open>os.path.dirname\<close> of the platform;
  \<open>float\<close> (\<open>None\<close> for a \<open>ValueError\<close>); \<open>str.upper\<close> and \<open>str.strip\<close>;
  \<open>urllib.parse.quote(s, safe='/:')\<close> and \<open>urllib.parse.unquote\<close>; \<open>binary64\<close>, the
  rounding of a real number to the nearest floating-point number, which every
  arithmetic operation on \<open>float\<close>s applies to its exact result; and \<open>sleep_too_long\<close>,
  the delays for which \<open>time.sleep\<close> raises \<open>OverflowError\<close>.
\<close>

record lib =
  os_path_join :: "string \<Rightarrow> string \<Rightarrow> string"
  os_path_basename :: "string \<Rightarrow> string"
  os_path_dirname :: "string \<Rightarrow> string"
  py_float :: "string \<Rightarrow> pyfloat option"
  py_upper :: "string \<Rightarrow> string"
  py_strip :: "string \<Rightarrow> string"
  py_quote :: "string \<Rightarrow> string"
  py_unquote :: "string \<Rightarrow> string"
  binary64 :: "real \<Rightarrow> real"
  sleep_too_long :: "real \<Rightarrow> bool"

definition urlopen :: "string \<Rightarrow> world \<Rightarrow> outcome \<times> world" where
  "urlopen url w = (net w url (length (requests w)), w\<lparr>requests := requests w @ [url]\<rparr>)"

text \<open>\<open>time.sleep(delay)\<close>: a \<open>ValueError\<close> for a negative delay, an \<open>OverflowError\<close>
  for one the clock cannot hold.\<close>

definition time_sleep :: "lib \<Rightarrow> real \<Rightarrow> world \<Rightarrow> exn + world" where
  "time_sleep lb delay w =
     (if delay < 0 then Inl (OtherError ''ValueError'')
      else if sleep_too_long lb delay then Inl (OtherError ''OverflowError'')
      else Inr (w\<lparr>sleeps := sleeps w @ [delay]\<rparr>))"

text \<open>\<open>open(p, 'wb')\<close> succeeds when the directory of \<open>p\<close> exists (an empty directory
  name is the current directory) and the system lets the program write there.\<close>

definition can_open :: "lib \<Rightarrow> world \<Rightarrow> string \<Rightarrow> bool" where
  "can_open lb w p \<longleftrightarrow>
     (os_path_dirname lb p = [] \<or> os_path_dirname lb p \<in> dirs w) \<and> writable w p"

section \<open>\<open>validate_url\<close> and \<open>safe_request\<close>\<close>

definition validate_url :: "lib \<Rightarrow> string \<Rightarrow> bool" where
  "validate_url lb url =
     (if py_strip lb url = [] then False
      else if \<not> contains ''//downloads.khinsider.com/game-soundtracks/album/'' url then False
      else True)"

text \<open>
  \<open>safe_request(url, retry_count, retry_delay)\<close>, from the attempt \<open>attempt\<close> of the
  \<open>for\<close> loop on. The result is \<open>Inl e\<close> when the exception \<open>e\<close> leaves the function,
  \<open>Inr (Some r)\<close> when it returns the response \<open>r\<close>, and \<open>Inr None\<close> when the loop
  ends without a \<open>return\<close> (Python then returns \<open>None\<close>). An exception of \<open>time.sleep\<close>
  is raised inside the handler and leaves the function.
\<close>

function safe_request_from ::
  "lib \<Rightarrow> string \<Rightarrow> int \<Rightarrow> real \<Rightarrow> int \<Rightarrow> world \<Rightarrow> (exn + response option) \<times> world" where
  "safe_request_from lb url retry_count retry_delay attempt w =
     (if attempt < retry_count then
        (case urlopen url w of
           (Ok r, w') \<Rightarrow> (Inr (Some r), w')
         | (Raise e, w') \<Rightarrow>
             (if is_URLError e then
                (if attempt < retry_count - 1 then
                   (case time_sleep lb retry_delay w' of
                      Inl sleep_error \<Rightarrow> (Inl sleep_error, w')
                    | Inr w'' \<Rightarrow>
                        safe_request_from lb url retry_count retry_delay (attempt + 1) w'')
                 else (Inl e, w'))
              else (Inl e, w')))
      else (Inr None, w))"
  by pat_completeness auto
termination
  by (relation "measure (\<lambda>(lb, url, retry_count, retry_delay, attempt, w).
        nat (retry_count - attempt))") auto

declare safe_request_from.simps [simp del]

definition safe_request ::
  "lib \<Rightarrow> string \<Rightarrow> int \<Rightarrow> real \<Rightarrow> world \<Rightarrow> (exn + response option) \<times> world" where
  "safe_request lb url retry_count retry_delay w =
     safe_request_from lb url retry_count retry_delay 0 w"

section \<open>\<open>get_album_info\<close>\<close>

definition BASE_URL :: string where
  "BASE_URL = ''https://downloads.khinsider.com''"

record track =
  t_name :: string
  t_url :: string

record album_info =
  al_title :: string
  al_url :: string
  al_tracks :: "track list"

text \<open>The configuration, one field for each key of \<open>DEFAULT_CONFIG\<close>.\<close>

record config =
  cfg_output_directory :: string
  cfg_max_threads :: int
  cfg_format_preference :: "string list"
  cfg_include_track_number :: bool
  cfg_retry_attempts :: int
  cfg_retry_delay :: real

text \<open>The body of the loop over the rows: the first link of the first clickable
  cell gives one track when it has a non-empty \<open>href\<close>; every other row gives none.\<close>

definition row_tracks :: "lib \<Rightarrow> anchor option list \<Rightarrow> track list" where
  "row_tracks lb cells =
     (case cells of
        [] \<Rightarrow> []
      | cell # _ \<Rightarrow>
          (case cell of
             None \<Rightarrow> []
           | Some link \<Rightarrow>
               (case a_href link of
                  None \<Rightarrow> []
                | Some href \<Rightarrow>
                    (if href = [] then []
                     else [\<lparr>t_name = py_strip lb (a_text link), t_url = BASE_URL @ href\<rparr>]))))"

text \<open>\<open>get_album_info(url, config)\<close>: \<open>None\<close> when the request raises or returns
  nothing, when the body cannot be read, or when the page has no \<open>songlist\<close>.\<close>

definition get_album_info ::
  "lib \<Rightarrow> string \<Rightarrow> config \<Rightarrow> world \<Rightarrow> album_info option \<times> world" where
  "get_album_info lb url cfg w =
     (case safe_request lb url (cfg_retry_attempts cfg) (cfg_retry_delay cfg) w of
        (Inl e, w') \<Rightarrow> (None, w')
      | (Inr None, w') \<Rightarrow> (None, w')
      | (Inr (Some response), w') \<Rightarrow>
          (if resp_read_fails response then (None, w')
           else
             (let soup = resp_page response;
                  album_title = sanitize_filename
                    (case page_h2 soup of
                       Some h2 \<Rightarrow> py_strip lb h2
                     | None \<Rightarrow> ''Unknown Album'')
              in case page_songlist soup of
                   None \<Rightarrow> (None, w')
                 | Some rows \<Rightarrow>
                     (Some \<lparr>al_title = album_title, al_url = url,
                        al_tracks = foldl (\<lambda>tracks row. tracks @ row_tracks lb row) [] rows\<rparr>,
                      w'))))"

section \<open>\<open>get_track_download_url\<close>\<close>

record track_info =
  ti_url :: string
  ti_format :: string
  ti_title :: string
  ti_size :: pyfloat

text \<open>The two lines applied to every resolved URL:
  \<open>url = unquote(url); url = quote(url, safe='/:')\<close>.\<close>

definition normalize_url :: "lib \<Rightarrow> string \<Rightarrow> string" where
  "normalize_url lb url = py_quote lb (py_unquote lb url)"

text \<open>The title of the track: the second \<open>b\<close> of the paragraph when there is one and
  it is not empty, else the file name of the URL with \<open>%20\<close> replaced by a space and a
  final \<open>.mp3\<close> removed.\<close>

definition extract_title :: "lib \<Rightarrow> page \<Rightarrow> string \<Rightarrow> string" where
  "extract_title lb soup detail_url =
     (let track_title =
            (case page_title_bolds soup of
               None \<Rightarrow> None
             | Some bold_elements \<Rightarrow>
                 (if length bold_elements > 1 then Some (py_strip lb (bold_elements ! 1))
                  else None))
      in if track_title \<noteq> None \<and> track_title \<noteq> Some []
         then the track_title
         else
           (let name = str_replace ''%20'' '' '' (os_path_basename lb detail_url)
            in if suffix ''.mp3'' name then take (length name - 4) name else name))"

text \<open>The size shown beside a link: \<open>0\<close> unless the text of the parent holds \<open>MB\<close>
  and \<open>float\<close> accepts what stands between the first \<open>(\<close> and the first \<open> MB\<close>
  after it.\<close>

definition parse_size :: "lib \<Rightarrow> string \<Rightarrow> pyfloat" where
  "parse_size lb size_text =
     (if contains ''MB'' size_text then
        (case second_paren_field size_text of
           None \<Rightarrow> Finite 0
         | Some field \<Rightarrow>
             (case py_float lb (before_sep '' MB'' field) of
                None \<Rightarrow> Finite 0
              | Some file_size \<Rightarrow> file_size))
      else Finite 0)"

text \<open>The test of the inner loop: the text of the link contains the label with the
  format in upper case, and the link has a non-empty \<open>href\<close>.\<close>

definition link_matches :: "lib \<Rightarrow> string \<Rightarrow> anchor \<Rightarrow> bool" where
  "link_matches lb format_type link \<longleftrightarrow>
     a_text link \<noteq> []
     \<and> contains (''Click here to download as '' @ py_upper lb format_type) (a_text link)
     \<and> a_href link \<noteq> None \<and> a_href link \<noteq> Some []"

definition link_candidate :: "lib \<Rightarrow> string \<Rightarrow> string \<Rightarrow> anchor \<Rightarrow> track_info" where
  "link_candidate lb track_title format_type link =
     \<lparr>ti_url = the (a_href link), ti_format = format_type, ti_title = track_title,
      ti_size = parse_size lb (case a_parent_text link of Some t \<Rightarrow> t | None \<Rightarrow> [])\<rparr>"

text \<open>The two nested loops that fill the dictionary \<open>download_links\<close>.\<close>

definition scan_links ::
  "lib \<Rightarrow> string \<Rightarrow> anchor list \<Rightarrow> (string \<rightharpoonup> track_info) \<Rightarrow> string \<Rightarrow> (string \<rightharpoonup> track_info)" where
  "scan_links lb track_title links download_links format_type =
     foldl (\<lambda>d link. if link_matches lb format_type link
                      then d(format_type \<mapsto> link_candidate lb track_title format_type link)
                      else d)
       download_links links"

definition collect_links ::
  "lib \<Rightarrow> string \<Rightarrow> anchor list \<Rightarrow> string list \<Rightarrow> (string \<rightharpoonup> track_info)" where
  "collect_links lb track_title links format_preference =
     foldl (scan_links lb track_title links) Map.empty format_preference"

text \<open>The loop that returns the first format of the preference with an entry in the
  dictionary, its URL normalised.\<close>

fun first_available ::
  "lib \<Rightarrow> string list \<Rightarrow> (string \<rightharpoonup> track_info) \<Rightarrow> track_info option" where
  "first_available lb [] download_links = None"
| "first_available lb (format_type # rest) download_links =
     (case download_links format_type of
        Some info \<Rightarrow> Some (info\<lparr>ti_url := normalize_url lb (ti_url info)\<rparr>)
      | None \<Rightarrow> first_available lb rest download_links)"

text \<open>The \<open>audio\<close> element, tried when no labelled link was found. The probe is one
  plain \<open>urlopen\<close>; whatever it raises is swallowed.\<close>

definition audio_fallback ::
  "lib \<Rightarrow> page \<Rightarrow> string \<Rightarrow> string list \<Rightarrow> world \<Rightarrow> track_info option \<times> world" where
  "audio_fallback lb soup track_title format_preference w =
     (case page_audio_src soup of
        None \<Rightarrow> (None, w)
      | Some src \<Rightarrow>
          (if src = [] then (None, w)
           else
             (let audio_src = normalize_url lb src;
                  mp3 = \<lparr>ti_url = audio_src, ti_format = ''mp3'', ti_title = track_title,
                         ti_size = Finite 0\<rparr>
              in if ''flac'' \<in> set format_preference then
                   (let flac_url = str_replace ''.mp3'' ''.flac'' audio_src
                    in case urlopen flac_url w of
                         (Ok probe, w') \<Rightarrow>
                           (Some \<lparr>ti_url = flac_url, ti_format = ''flac'',
                                  ti_title = track_title, ti_size = Finite 0\<rparr>, w')
                       | (Raise e, w') \<Rightarrow> (Some mp3, w'))
                 else (Some mp3, w))))"

definition get_track_download_url ::
  "lib \<Rightarrow> string \<Rightarrow> string list \<Rightarrow> world \<Rightarrow> track_info option \<times> world" where
  "get_track_download_url lb track_url format_preference w =
     (case safe_request lb track_url 3 5 w of
        (Inl e, w') \<Rightarrow> (None, w')
      | (Inr None, w') \<Rightarrow> (None, w')
      | (Inr (Some response), w') \<Rightarrow>
          (if resp_read_fails response then (None, w')
           else
             (let soup = resp_page response;
                  track_title = extract_title lb soup track_url;
                  download_links =
                    collect_links lb track_title (page_anchors soup) format_preference
              in case first_available lb format_preference download_links of
                   Some info \<Rightarrow> (Some info, w')
                 | None \<Rightarrow> audio_fallback lb soup track_title format_preference w')))"

section \<open>\<open>download_file\<close>\<close>

text \<open>The test that skips a download: the file exists, the expected size is neither
  \<open>None\<close> nor zero, and \<open>abs(existing_size - expected_size) < 0.1\<close> holds, where
  \<open>existing_size\<close> is the size in bytes divided by \<open>1024 * 1024\<close>; the division and the
  subtraction round their results, and \<open>0.1\<close> is the floating-point number nearest to
  one tenth. A size that is not finite is true as a condition and never within the
  tolerance.\<close>

definition already_downloaded :: "lib \<Rightarrow> world \<Rightarrow> string \<Rightarrow> pyfloat option \<Rightarrow> bool" where
  "already_downloaded lb w file_path expected_size =
     (case fs w file_path of
        None \<Rightarrow> False
      | Some bytes \<Rightarrow>
          (case expected_size of
             None \<Rightarrow> False
           | Some NonFinite \<Rightarrow> False
           | Some (Finite expected) \<Rightarrow>
               expected \<noteq> 0
               \<and> \<bar>binary64 lb (binary64 lb (real bytes / (1024 * 1024)) - expected)\<bar>
                   < binary64 lb (1 / 10)))"

definition chunk_size :: nat where
  "chunk_size = 1024 * 8"

text \<open>The \<open>while True\<close> loop: \<open>response.read(chunk_size)\<close> gives the next bytes of the
  body, at most \<open>chunk_size\<close> of them; an empty chunk ends the loop.\<close>

fun read_chunks :: "nat \<Rightarrow> nat \<Rightarrow> nat" where
  "read_chunks remaining downloaded =
     (if min chunk_size remaining = 0 then downloaded
      else read_chunks (remaining - min chunk_size remaining)
             (downloaded + min chunk_size remaining))"

declare read_chunks.simps [simp del]

text \<open>How one pass through the body of the \<open>for\<close> loop ends: the file was already
  there, the transfer is complete, the transfer is short of the advertised length, or
  an exception was raised.\<close>

datatype attempt_result = Skipped | Complete | Incomplete | Failed

definition attempt_download ::
  "lib \<Rightarrow> string \<Rightarrow> string \<Rightarrow> pyfloat option \<Rightarrow> world \<Rightarrow> attempt_result \<times> world" where
  "attempt_download lb url file_path expected_size w =
     (if already_downloaded lb w file_path expected_size then (Skipped, w)
      else
        (case safe_request lb url 3 5 w of
           (Inl e, w1) \<Rightarrow> (Failed, w1)
         | (Inr None, w1) \<Rightarrow> (Failed, w1)
         | (Inr (Some response), w1) \<Rightarrow>
             (case resp_content_length response of
                HeaderBad \<Rightarrow> (Failed, w1)
              | content_length \<Rightarrow>
                  (let total_size = (case content_length of HeaderInt n \<Rightarrow> n | _ \<Rightarrow> 0)
                   in if \<not> can_open lb w1 file_path then (Failed, w1)
                      else
                        (let downloaded = read_chunks (resp_body_len response) 0;
                             w2 = w1\<lparr>fs := (fs w1)(file_path \<mapsto> downloaded)\<rparr>
                         in if resp_read_fails response then (Failed, w2)
                            else if 0 < total_size \<and> total_size \<noteq> int downloaded
                            then (Incomplete, w2)
                            else (Complete, w2))))))"

text \<open>
  \<open>download_file(url, file_path, expected_size, retry_count, retry_delay)\<close> from the
  attempt \<open>attempt\<close> on. \<open>Inr (Some True)\<close> and \<open>Inr (Some False)\<close> are the two booleans,
  \<open>Inr None\<close> is what Python returns when the loop ends without a \<open>return\<close>, and \<open>Inl e\<close>
  is an exception that leaves the function: the one \<open>time.sleep\<close> raises in the handler
  (after a short transfer the sleep in the \<open>try\<close> block raises first, the handler
  catches that and its own sleep raises again).
\<close>

function download_file_from ::
  "lib \<Rightarrow> string \<Rightarrow> string \<Rightarrow> pyfloat option \<Rightarrow> int \<Rightarrow> real \<Rightarrow> int \<Rightarrow> world
     \<Rightarrow> (exn + bool option) \<times> world"
  where
  "download_file_from lb url file_path expected_size retry_count retry_delay attempt w =
     (if attempt < retry_count then
        (case attempt_download lb url file_path expected_size w of
           (Skipped, w') \<Rightarrow> (Inr (Some True), w')
         | (Complete, w') \<Rightarrow> (Inr (Some True), w')
         | (Incomplete, w') \<Rightarrow>
             (if attempt < retry_count - 1 then
                (case time_sleep lb retry_delay w' of
                   Inl sleep_error \<Rightarrow> (Inl sleep_error, w')
                 | Inr w'' \<Rightarrow>
                     download_file_from lb url file_path expected_size retry_count retry_delay
                       (attempt + 1) w'')
              else (Inr (Some False), w'))
         | (Failed, w') \<Rightarrow>
             (if attempt < retry_count - 1 then
                (case time_sleep lb retry_delay w' of
                   Inl sleep_error \<Rightarrow> (Inl sleep_error, w')
                 | Inr w'' \<Rightarrow>
                     download_file_from lb url file_path expected_size retry_count retry_delay
                       (attempt + 1) w'')
              else (Inr (Some False), w')))
      else (Inr None, w))"
  by pat_completeness auto
termination
  by (relation "measure (\<lambda>(lb, url, file_path, expected_size, retry_count, retry_delay,
        attempt, w). nat (retry_count - attempt))") auto

declare download_file_from.simps [simp del]

definition download_file ::
  "lib \<Rightarrow> string \<Rightarrow> string \<Rightarrow> pyfloat option \<Rightarrow> int \<Rightarrow> real \<Rightarrow> world
     \<Rightarrow> (exn + bool option) \<times> world" where
  "download_file lb url file_path expected_size retry_count retry_delay w =
     download_file_from lb url file_path expected_size retry_count retry_delay 0 w"

section \<open>\<open>download_track\<close> and \<open>download_album\<close>\<close>

text \<open>\<open>set_metadata\<close> lets the tagging library rewrite the file; what it raises is
  swallowed. The import of \<open>mutagen\<close> at the top of the module either succeeds or ends
  the program, so \<open>MUTAGEN_AVAILABLE\<close> is true whenever a track is downloaded.\<close>

definition set_metadata :: "string \<Rightarrow> world \<Rightarrow> world" where
  "set_metadata file_path w =
     (case fs w file_path of
        None \<Rightarrow> w
      | Some bytes \<Rightarrow> w\<lparr>fs := (fs w)(file_path \<mapsto> retag w file_path bytes)\<rparr>)"

definition track_filename :: "config \<Rightarrow> track \<Rightarrow> nat option \<Rightarrow> string" where
  "track_filename cfg trk track_number =
     (if cfg_include_track_number cfg \<and> track_number \<noteq> None
      then fmt_02d (the track_number) @ '' - '' @ t_name trk
      else t_name trk)"

definition track_file_path ::
  "lib \<Rightarrow> config \<Rightarrow> string \<Rightarrow> track \<Rightarrow> nat option \<Rightarrow> string \<Rightarrow> string" where
  "track_file_path lb cfg output_dir trk track_number format_type =
     os_path_join lb output_dir (track_filename cfg trk track_number @ ''.'' @ format_type)"

text \<open>\<open>download_track\<close>: an exception of \<open>download_file\<close> is caught and gives
  \<open>False\<close>.\<close>

definition download_track ::
  "lib \<Rightarrow> track \<Rightarrow> string \<Rightarrow> config \<Rightarrow> nat option \<Rightarrow> world \<Rightarrow> bool option \<times> world" where
  "download_track lb trk output_dir cfg track_number w =
     (case get_track_download_url lb (t_url trk) (cfg_format_preference cfg) w of
        (None, w1) \<Rightarrow> (Some False, w1)
      | (Some info, w1) \<Rightarrow>
          (let file_path = track_file_path lb cfg output_dir trk track_number (ti_format info)
           in case download_file lb (ti_url info) file_path (Some (ti_size info))
                     (cfg_retry_attempts cfg) (cfg_retry_delay cfg) w1 of
                (Inl e, w2) \<Rightarrow> (Some False, w2)
              | (Inr success, w2) \<Rightarrow>
                  (success, if success = Some True then set_metadata file_path w2 else w2)))"

text \<open>\<open>if not os.path.exists(d): os.makedirs(d)\<close>; \<open>None\<close> when \<open>makedirs\<close> raises.\<close>

definition ensure_dir :: "string \<Rightarrow> world \<Rightarrow> world option" where
  "ensure_dir d w =
     (if d \<in> dirs w \<or> fs w d \<noteq> None then Some w
      else if can_mkdir w d then Some (w\<lparr>dirs := insert d (dirs w)\<rparr>)
      else None)"

text \<open>
  The thread pool. Every submitted task runs exactly once; the order in which the
  tasks run is not fixed by the program, so it is a parameter: the tasks named by
  \<open>schedule\<close> run first, in that order, then the remaining ones in the order of
  submission. A task runs from its start to its end before the next one starts (the
  interleaving of the steps of two tasks is not modelled). \<open>run_pool\<close> gives the
  results of the futures in the order of submission.
\<close>

definition run_order :: "nat \<Rightarrow> nat list \<Rightarrow> nat list" where
  "run_order n schedule =
     remdups (filter (\<lambda>i. i < n) schedule) @ filter (\<lambda>i. i \<notin> set schedule) [0..<n]"

definition run_task ::
  "(world \<Rightarrow> bool option \<times> world) list \<Rightarrow> bool option list \<times> world \<Rightarrow> nat
     \<Rightarrow> bool option list \<times> world" where
  "run_task tasks state i =
     (case (tasks ! i) (snd state) of (result, w') \<Rightarrow> ((fst state)[i := result], w'))"

definition run_pool ::
  "(world \<Rightarrow> bool option \<times> world) list \<Rightarrow> nat list \<Rightarrow> world \<Rightarrow> bool option list \<times> world"
  where
  "run_pool tasks schedule w =
     foldl (run_task tasks) (replicate (length tasks) None, w)
       (run_order (length tasks) schedule)"

text \<open>The tasks submitted by the loop \<open>for i, track in enumerate(album_info['tracks'])\<close>:
  the track number \<open>i + 1\<close> is an argument of the task.\<close>

definition album_tasks ::
  "lib \<Rightarrow> config \<Rightarrow> string \<Rightarrow> track list \<Rightarrow> (world \<Rightarrow> bool option \<times> world) list" where
  "album_tasks lb cfg album_output_dir tracks =
     map (\<lambda>(i, trk). download_track lb trk album_output_dir cfg (Some (i + 1)))
       (enumerate 0 tracks)"

text \<open>\<open>download_album(album_url, config)\<close>: \<open>Inr\<close> the boolean it returns, \<open>Inl\<close> the
  exception that leaves it (\<open>os.makedirs\<close> failing, or a pool of no workers).\<close>

definition download_album ::
  "lib \<Rightarrow> string \<Rightarrow> config \<Rightarrow> nat list \<Rightarrow> world \<Rightarrow> (exn + bool) \<times> world" where
  "download_album lb album_url cfg schedule w =
     (if \<not> validate_url lb album_url then (Inr False, w)
      else
        (case get_album_info lb album_url cfg w of
           (None, w1) \<Rightarrow> (Inr False, w1)
         | (Some album, w1) \<Rightarrow>
             (if al_tracks album = [] then (Inr False, w1)
              else
                (let album_output_dir =
                       os_path_join lb (cfg_output_directory cfg) (al_title album)
                 in case ensure_dir (cfg_output_directory cfg) w1 of
                      None \<Rightarrow> (Inl (OtherError ''OSError''), w1)
                    | Some w2 \<Rightarrow>
                        (case ensure_dir album_output_dir w2 of
                           None \<Rightarrow> (Inl (OtherError ''OSError''), w2)
                         | Some w3 \<Rightarrow>
                             (if cfg_max_threads cfg \<le> 0
                              then (Inl (OtherError ''ValueError''), w3)
                              else
                                (case run_pool
                                        (album_tasks lb cfg album_output_dir (al_tracks album))
                                        schedule w3 of
                                   (results, w4) \<Rightarrow>
                                     (let success_count =
                                            length (filter (\<lambda>r. r = Some True) results)
                                      in (Inr (success_count = length (al_tracks album)),
                                          w4)))))))))"

section \<open>\<open>load_config\<close>\<close>

text \<open>A JSON value as \<open>json.load\<close> returns it.\<close>

datatype jvalue = JNull | JBool bool | JNumber real | JString string
  | JArray "jvalue list" | JObject "(string \<times> jvalue) list"

text \<open>
  The configuration file: there is none; there is one and opening or parsing it raises;
  or it parses to a JSON object, given by its members in the order of the file (of
  two members with the same key \<open>json.load\<close> keeps the later one). A file that parses
  to a JSON value other than an object is not in this type.
\<close>

datatype config_file = NoFile | Unparsable | Object "(string \<times> jvalue) list"

text \<open>\<open>DEFAULT_CONFIG\<close>; the default output directory is built with
  \<open>os.path.join\<close> and \<open>os.path.expanduser\<close> and is a parameter.\<close>

definition DEFAULT_CONFIG :: "string \<Rightarrow> (string \<rightharpoonup> jvalue)" where
  "DEFAULT_CONFIG default_directory =
     [''output_directory'' \<mapsto> JString default_directory,
      ''max_threads'' \<mapsto> JNumber 3,
      ''format_preference'' \<mapsto> JArray [JString ''flac'', JString ''mp3''],
      ''include_track_number'' \<mapsto> JBool True,
      ''retry_attempts'' \<mapsto> JNumber 3,
      ''retry_delay'' \<mapsto> JNumber 5]"

text \<open>\<open>load_config()\<close>: the dictionary it returns, and whether it logged a warning.\<close>

definition load_config :: "string \<Rightarrow> config_file \<Rightarrow> (string \<rightharpoonup> jvalue) \<times> bool" where
  "load_config default_directory file =
     (case file of
        NoFile \<Rightarrow> (DEFAULT_CONFIG default_directory, False)
      | Unparsable \<Rightarrow> (DEFAULT_CONFIG default_directory, True)
      | Object members \<Rightarrow>
          (DEFAULT_CONFIG default_directory ++ map_of (rev members), False))"

section \<open>Notions used in the statements\<close>

text \<open>The state after \<open>j + 1\<close> requests of \<open>url\<close> with a sleep of \<open>delay\<close> between
  two consecutive ones.\<close>

definition after_requests :: "string \<Rightarrow> real \<Rightarrow> nat \<Rightarrow> world \<Rightarrow> world" where
  "after_requests url delay j w =
     w\<lparr>requests := requests w @ replicate (Suc j) url, sleeps := sleeps w @ replicate j delay\<rparr>"

text \<open>The formats with a labelled link on the page, and the entry the dictionary
  holds for such a format: the one of the last matching link.\<close>

definition labelled :: "lib \<Rightarrow> anchor list \<Rightarrow> string \<Rightarrow> bool" where
  "labelled lb links format_type = list_ex (link_matches lb format_type) links"

definition labelled_candidate :: "lib \<Rightarrow> string \<Rightarrow> anchor list \<Rightarrow> string \<Rightarrow> track_info" where
  "labelled_candidate lb track_title links format_type =
     link_candidate lb track_title format_type
       (last (filter (link_matches lb format_type) links))"

text \<open>A disk with one more file.\<close>

definition with_file :: "string \<Rightarrow> nat \<Rightarrow> world \<Rightarrow> world" where
  "with_file p bytes w = w\<lparr>fs := (fs w)(p \<mapsto> bytes)\<rparr>"

text \<open>The answer delivers as many bytes as it advertises, or advertises no positive
  length.\<close>

definition served_whole :: "response \<Rightarrow> bool" where
  "served_whole r \<longleftrightarrow>
     \<not> resp_read_fails r
     \<and> (case resp_content_length r of
          NoHeader \<Rightarrow> True
        | HeaderInt n \<Rightarrow> n \<le> 0 \<or> n = int (resp_body_len r)
        | HeaderBad \<Rightarrow> False)"

text \<open>Names for the parts of \<open>download_album\<close>: the directory of the album, the
  run of the pool on the tasks of the album, the disk after the tasks of a list have
  run, and the file name of a track with the number \<open>i\<close>.\<close>

definition album_dir :: "lib \<Rightarrow> config \<Rightarrow> album_info \<Rightarrow> string" where
  "album_dir lb cfg album = os_path_join lb (cfg_output_directory cfg) (al_title album)"

definition pool_run ::
  "lib \<Rightarrow> config \<Rightarrow> album_info \<Rightarrow> nat list \<Rightarrow> world \<Rightarrow> bool option list \<times> world" where
  "pool_run lb cfg album schedule w =
     run_pool (album_tasks lb cfg (album_dir lb cfg album) (al_tracks album)) schedule w"

definition pool_state_after ::
  "lib \<Rightarrow> config \<Rightarrow> album_info \<Rightarrow> world \<Rightarrow> nat list \<Rightarrow> world" where
  "pool_state_after lb cfg album w order =
     snd (foldl (run_task (album_tasks lb cfg (album_dir lb cfg album) (al_tracks album)))
            (replicate (length (al_tracks album)) None, w) order)"

definition numbered_name :: "config \<Rightarrow> nat \<Rightarrow> string \<Rightarrow> string" where
  "numbered_name cfg i name =
     (if cfg_include_track_number cfg then fmt_02d i @ '' - '' @ name else name)"

definition documented_keys :: "string set" where
  "documented_keys = {''output_directory'', ''max_threads'', ''format_preference'',
     ''include_track_number'', ''retry_attempts'', ''retry_delay''}"

section \<open>The library on a POSIX system and on ASCII text\<close>

text \<open>
  The functions below are the library functions of \<open>lib\<close> where they are simple to
  write down; the examples use them. \<open>quote\<close> is \<open>urllib.parse.quote(s, safe='/:')\<close> on
  the bytes of \<open>s\<close>: the letters, the digits and \<open>_.-~\<close> are never escaped, \<open>/\<close> and \<open>:\<close>
  are the caller's safe characters, every other byte becomes \<open>%XX\<close> with upper-case
  hexadecimal digits. \<open>unquote_to_bytes\<close> is the function of that name of
  \<open>urllib.parse\<close>: a \<open>%\<close> followed by two hexadecimal digits is replaced by the byte
  they denote and every other byte stays; \<open>urllib.parse.unquote\<close> decodes the result as
  UTF-8 and agrees with it whenever the escapes denote well-formed UTF-8, as the ASCII
  escapes of the examples do. \<open>ascii_upper\<close> and \<open>ascii_strip\<close> are \<open>str.upper\<close> and
  \<open>str.strip\<close> on ASCII text.
\<close>

definition hex_digits :: string where
  "hex_digits = ''0123456789ABCDEF''"

definition hexd :: "nat \<Rightarrow> char" where
  "hexd n = hex_digits ! n"

definition is_hex :: "char \<Rightarrow> bool" where
  "is_hex c \<longleftrightarrow> c \<in> set ''0123456789ABCDEFabcdef''"

definition hex_val :: "char \<Rightarrow> nat" where
  "hex_val c =
     (let n = (of_char c :: nat)
      in if n \<le> 57 then n - 48 else if n \<le> 70 then n - 55 else n - 87)"

definition always_safe :: string where
  "always_safe =
     ''ABCDEFGHIJKLMNOPQRSTUVWXYZabcdefghijklmnopqrstuvwxyz0123456789_.-~''"

definition is_safe :: "char \<Rightarrow> bool" where
  "is_safe c \<longleftrightarrow> c \<in> set always_safe \<or> c \<in> set ''/:''"

definition quote_byte :: "char \<Rightarrow> string" where
  "quote_byte c =
     (if is_safe c then [c]
      else [CHR ''%'', hexd ((of_char c :: nat) div 16), hexd ((of_char c :: nat) mod 16)])"

definition quote :: "string \<Rightarrow> string" where
  "quote s = concat (map quote_byte s)"

fun unquote_to_bytes :: "string \<Rightarrow> string" where
  "unquote_to_bytes (c # h # l # rest) =
     (if c = CHR ''%'' \<and> is_hex h \<and> is_hex l
      then char_of (16 * hex_val h + hex_val l) # unquote_to_bytes rest
      else c # unquote_to_bytes (h # l # rest))"
| "unquote_to_bytes cs = cs"

definition upper_char :: "char \<Rightarrow> char" where
  "upper_char c =
     (let n = (of_char c :: nat) in if 97 \<le> n \<and> n \<le> 122 then char_of (n - 32) else c)"

definition ascii_upper :: "string \<Rightarrow> string" where
  "ascii_upper s = map upper_char s"

definition is_space :: "char \<Rightarrow> bool" where
  "is_space c =
     (let n = (of_char c :: nat) in (9 \<le> n \<and> n \<le> 13) \<or> (28 \<le> n \<and> n \<le> 32))"

definition ascii_strip :: "string \<Rightarrow> string" where
  "ascii_strip s = rev (dropWhile is_space (rev (dropWhile is_space s)))"

definition posix_join :: "string \<Rightarrow> string \<Rightarrow> string" where
  "posix_join a b =
     (if b \<noteq> [] \<and> hd b = CHR ''/'' then b
      else if a = [] \<or> last a = CHR ''/'' then a @ b
      else a @ ''/'' @ b)"

definition posix_basename :: "string \<Rightarrow> string" where
  "posix_basename p = rev (takeWhile (\<lambda>c. c \<noteq> CHR ''/'') (rev p))"

definition posix_dirname :: "string \<Rightarrow> string" where
  "posix_dirname p =
     (let head = rev (dropWhile (\<lambda>c. c \<noteq> CHR ''/'') (rev p))
      in if head \<noteq> [] \<and> \<not> list_all (\<lambda>c. c = CHR ''/'') head
         then rev (dropWhile (\<lambda>c. c = CHR ''/'') (rev head))
         else head)"

text \<open>\<open>float\<close> on the size texts of the examples, which denote floating-point numbers
  exactly.\<close>

definition demo_float :: "string \<Rightarrow> pyfloat option" where
  "demo_float s =
     (if s = ''25.25'' then Some (Finite (101 / 4))
      else if s = ''4.5'' then Some (Finite (9 / 2))
      else if s = ''10.0'' then Some (Finite 10)
      else if s = ''0.00'' then Some (Finite 0)
      else None)"

text \<open>The rounding on the numbers of the examples: the sizes and differences that
  occur there are floating-point numbers and round to themselves; one tenth rounds to
  \<open>3602879701896397 / 2 ^ 55\<close>.\<close>

definition demo_round :: "real \<Rightarrow> real" where
  "demo_round x = (if x = 1 / 10 then 3602879701896397 / 36028797018963968 else x)"

definition demo_lib :: lib where
  "demo_lib = \<lparr>os_path_join = posix_join, os_path_basename = posix_basename,
     os_path_dirname = posix_dirname, py_float = demo_float, py_upper = ascii_upper,
     py_strip = ascii_strip, py_quote = quote, py_unquote = unquote_to_bytes,
     binary64 = demo_round, sleep_too_long = (\<lambda>delay. 9223372036 < delay)\<rparr>"

section \<open>Concrete inputs\<close>

definition blank_page :: page where
  "blank_page = \<lparr>page_h2 = None, page_songlist = None, page_title_bolds = None,
     page_anchors = [], page_audio_src = None\<rparr>"

definition plain_response :: response where
  "plain_response = \<lparr>resp_content_length = NoHeader, resp_body_len = 0,
     resp_read_fails = False, resp_page = blank_page\<rparr>"

text \<open>A fresh run in an empty current directory: nothing requested, nothing slept, no
  file and no directory, a system that lets the program write everywhere and make every
  directory with a name, and a tagging library that leaves sizes alone.\<close>

definition world_of :: "(string \<Rightarrow> nat \<Rightarrow> outcome) \<Rightarrow> world" where
  "world_of answers = \<lparr>net = answers, requests = [], sleeps = [], fs = Map.empty,
     dirs = {}, writable = (\<lambda>p. True), can_mkdir = (\<lambda>d. d \<noteq> []), retag = (\<lambda>p n. n)\<rparr>"



text \<open>Detail pages: an MP3 link whose address holds \<open>%2520\<close>, a FLAC link whose label
  is in lower case, and pages with an \<open>audio\<close> element only.\<close>

definition mp3_link :: anchor where
  "mp3_link = \<lparr>a_text = ''Click here to download as MP3'', a_href = Some ''/ost/a%2520b.mp3'',
     a_parent_text = Some ''Click here to download as MP3 (4.5 MB)''\<rparr>"

definition lower_flac_link :: anchor where
  "lower_flac_link = \<lparr>a_text = ''Click here to download as flac'', a_href = Some ''/ost/a b.flac'',
     a_parent_text = Some ''Click here to download as flac (25.25 MB)''\<rparr>"

definition page_with :: "anchor list \<Rightarrow> string option \<Rightarrow> page" where
  "page_with links audio = \<lparr>page_h2 = None, page_songlist = None,
     page_title_bolds = Some [''Album'', ''Song''], page_anchors = links, page_audio_src = audio\<rparr>"

definition serving :: "page \<Rightarrow> response" where
  "serving p = \<lparr>resp_content_length = NoHeader, resp_body_len = 0, resp_read_fails = False,
     resp_page = p\<rparr>"

definition only_mp3_world :: world where
  "only_mp3_world = world_of (\<lambda>url k. Ok (serving (page_with [mp3_link] None)))"

definition lower_label_world :: world where
  "lower_label_world =
     world_of (\<lambda>url k. Ok (serving (page_with [lower_flac_link, mp3_link] None)))"


text \<open>A server that advertises 10 MiB and delivers 4 MiB of them, one that delivers
  all but 52429 bytes of them, and a network that cannot be reached.\<close>

definition short_transfer :: response where
  "short_transfer = \<lparr>resp_content_length = HeaderInt 10485760, resp_body_len = 4194304,
     resp_read_fails = False, resp_page = blank_page\<rparr>"

definition cut_off_world :: world where
  "cut_off_world = world_of (\<lambda>url k. Ok short_transfer)"

definition nearly_whole_transfer :: response where
  "nearly_whole_transfer = \<lparr>resp_content_length = HeaderInt 10485760,
     resp_body_len = 10433331, resp_read_fails = False, resp_page = blank_page\<rparr>"

definition nearly_whole_world :: world where
  "nearly_whole_world = world_of (\<lambda>url k. Ok nearly_whole_transfer)"

definition offline_world :: world where
  "offline_world = world_of (\<lambda>url k. Raise (URLError ''unreachable''))"

text \<open>A server that delivers the five bytes it advertises.\<close>

definition whole_world :: world where
  "whole_world = world_of (\<lambda>url k. Ok \<lparr>resp_content_length = HeaderInt 5, resp_body_len = 5,
     resp_read_fails = False, resp_page = blank_page\<rparr>)"

text \<open>
  An album of two tracks, with a row without a link between them. The detail page of
  the first track has one MP3 link and the file behind it is served whole; the detail
  page of the second track has neither a link nor a player.
\<close>

definition demo_album_url :: string where
  "demo_album_url = ''https://downloads.khinsider.com/game-soundtracks/album/demo''"

definition demo_cfg :: config where
  "demo_cfg = \<lparr>cfg_output_directory = ''music'', cfg_max_threads = 3,
     cfg_format_preference = [''flac'', ''mp3''], cfg_include_track_number = True,
     cfg_retry_attempts = 3, cfg_retry_delay = 5\<rparr>"

definition catalog_link :: "string \<Rightarrow> string \<Rightarrow> anchor" where
  "catalog_link name href = \<lparr>a_text = name, a_href = Some href, a_parent_text = None\<rparr>"

definition album_page :: "anchor option list list \<Rightarrow> page" where
  "album_page rows = \<lparr>page_h2 = Some '' Demo: OST '', page_songlist = Some rows,
     page_title_bolds = None, page_anchors = [], page_audio_src = None\<rparr>"

definition demo_rows :: "anchor option list list" where
  "demo_rows = [[Some (catalog_link '' Who? Me: Yes '' ''/t/one'')], [None],
     [Some (catalog_link ''Two'' ''/t/two'')]]"

definition file_link :: "string \<Rightarrow> anchor" where
  "file_link href = \<lparr>a_text = ''Click here to download as MP3'', a_href = Some href,
     a_parent_text = Some ''Click here to download as MP3''\<rparr>"

definition file_response :: response where
  "file_response = \<lparr>resp_content_length = HeaderInt 5, resp_body_len = 5,
     resp_read_fails = False, resp_page = blank_page\<rparr>"

definition cut_response :: response where
  "cut_response = \<lparr>resp_content_length = HeaderInt 10, resp_body_len = 2,
     resp_read_fails = False, resp_page = blank_page\<rparr>"

text \<open>The site: the detail page \<open>/t/one\<close> links to a file that is served whole, the
  detail page \<open>/t/cut\<close> to one that is always cut after two bytes; every other page is
  blank. The album page is a parameter.\<close>

definition site :: "page \<Rightarrow> string \<Rightarrow> nat \<Rightarrow> outcome" where
  "site album url k =
     (if url = demo_album_url then Ok (serving album)
      else if url = BASE_URL @ ''/t/one''
        then Ok (serving (page_with [file_link ''https://files.example/one.mp3''] None))
      else if url = BASE_URL @ ''/t/cut''
        then Ok (serving (page_with [file_link ''https://files.example/cut.mp3''] None))
      else if url = ''https://files.example/one.mp3'' then Ok file_response
      else if url = ''https://files.example/cut.mp3'' then Ok cut_response
      else Ok plain_response)"

definition demo_world :: world where
  "demo_world = world_of (site (album_page demo_rows))"

definition demo_album :: album_info where
  "demo_album = \<lparr>al_title = ''Demo_ OST'', al_url = demo_album_url,
     al_tracks = [\<lparr>t_name = ''Who? Me: Yes'', t_url = BASE_URL @ ''/t/one''\<rparr>,
                  \<lparr>t_name = ''Two'', t_url = BASE_URL @ ''/t/two''\<rparr>]\<rparr>"

definition pool_world :: world where
  "pool_world = (after_requests demo_album_url 5 0 demo_world)
     \<lparr>dirs := {''music/Demo_ OST'', ''music''}\<rparr>"

text \<open>An album of two tracks of the same name, the second of which is always cut,
  downloaded without track numbers; and an album whose only track is named
  \<open>/tmp/intro\<close>, downloaded without track numbers on a system with a directory
  \<open>/tmp\<close>.\<close>

definition plain_names_cfg :: config where
  "plain_names_cfg = demo_cfg\<lparr>cfg_include_track_number := False\<rparr>"

definition twin_world :: world where
  "twin_world = world_of (site (album_page
     [[Some (catalog_link ''Two'' ''/t/one'')], [Some (catalog_link ''Two'' ''/t/cut'')]]))"

definition twin_album :: album_info where
  "twin_album = \<lparr>al_title = ''Demo_ OST'', al_url = demo_album_url,
     al_tracks = [\<lparr>t_name = ''Two'', t_url = BASE_URL @ ''/t/one''\<rparr>,
                  \<lparr>t_name = ''Two'', t_url = BASE_URL @ ''/t/cut''\<rparr>]\<rparr>"

definition twin_pool_world :: world where
  "twin_pool_world = (after_requests demo_album_url 5 0 twin_world)
     \<lparr>dirs := {''music/Demo_ OST'', ''music''}\<rparr>"

definition rooted_world :: world where
  "rooted_world = (world_of (site (album_page
     [[Some (catalog_link ''/tmp/intro'' ''/t/one'')]])))\<lparr>dirs := {''/tmp''}\<rparr>"

text \<open>A stored configuration with one documented and one unknown key.\<close>

definition stored_config :: "(string \<times> jvalue) list" where
  "stored_config = [(''max_threads'', JNumber 8), (''theme'', JString ''dark'')]"

section \<open>Facts about the URL functions\<close>

lemma below_16: "(n::nat) < 16 \<Longrightarrow> n \<in> {0,1,2,3,4,5,6,7,8,9,10,11,12,13,14,15}"
  by (simp; arith)

lemma hexd_is_hex:
  assumes "n < 16"
  shows "is_hex (hexd n)"
  using below_16 [OF assms] by (auto simp: is_hex_def hexd_def hex_digits_def)

lemma hex_val_hexd:
  assumes "n < 16"
  shows "hex_val (hexd n) = n"
  using below_16 [OF assms] by (auto simp: hex_val_def hexd_def hex_digits_def)

lemma of_char_below_256: "(of_char c :: nat) < 256"
proof -
  have "(of_char c :: nat) = of_char c mod 256" by simp
  also have "\<dots> < 256" by simp
  finally show ?thesis .
qed

lemma percent_not_safe: "\<not> is_safe CHR ''%''"
  by (simp add: is_safe_def always_safe_def)

lemma unquote_keep:
  "c \<noteq> CHR ''%'' \<Longrightarrow> unquote_to_bytes (c # cs) = c # unquote_to_bytes cs"
proof (cases cs)
  case Nil
  then show ?thesis by simp
next
  case (Cons h t)
  assume c: "c \<noteq> CHR ''%''"
  show ?thesis
  proof (cases t)
    case Nil
    with Cons c show ?thesis by simp
  next
    case (Cons l rest)
    with \<open>cs = h # t\<close> c show ?thesis by simp
  qed
qed

lemma unquote_quote_byte: "unquote_to_bytes (quote_byte c @ cs) = c # unquote_to_bytes cs"
proof (cases "is_safe c")
  case True
  then have "c \<noteq> CHR ''%''" using percent_not_safe by auto
  with True show ?thesis by (simp add: quote_byte_def unquote_keep)
next
  case False
  let ?n = "of_char c :: nat"
  have lt: "?n div 16 < 16" "?n mod 16 < 16"
    using of_char_below_256 [of c] by arith+
  have "char_of (16 * (?n div 16) + ?n mod 16) = c" by simp
  with False lt show ?thesis
    by (simp add: quote_byte_def hexd_is_hex hex_val_hexd)
qed

text \<open>On bytes, decoding what \<open>quote\<close> produced gives the input back: the round trip
  of claim C7 holds of the two functions.\<close>

lemma unquote_quote: "unquote_to_bytes (quote s) = s"
proof (induction s)
  case Nil
  then show ?case by (simp add: quote_def)
next
  case (Cons c s)
  have "quote (c # s) = quote_byte c @ quote s" by (simp add: quote_def)
  with Cons show ?case by (simp add: unquote_quote_byte)
qed

text \<open>
  Claim C7 fails on the code where the URL is double-encoded, the case the comment
  above the two lines names (\<open>%2520\<close>): \<open>unquote\<close> turns \<open>%2520\<close> into \<open>%20\<close>, and \<open>quote\<close>
  escapes the \<open>%\<close> again, so the normalised URL is the double-encoded input, not a
  single-encoded URL. It still takes two decodings to reach the space, and the URL
  that \<open>get_track_download_url\<close> returns for a link with this address is the
  double-encoded one. The input is ASCII, where \<open>quote\<close> and \<open>unquote_to_bytes\<close> are the
  library functions.
\<close>

theorem normalize_keeps_double_encoding:
  "normalize_url demo_lib ''/ost/a%2520b.mp3'' = ''/ost/a%2520b.mp3''
   \<and> py_unquote demo_lib ''/ost/a%2520b.mp3'' = ''/ost/a%20b.mp3''
   \<and> py_quote demo_lib ''/ost/a%20b.mp3'' = ''/ost/a%2520b.mp3''
   \<and> py_unquote demo_lib (py_unquote demo_lib (normalize_url demo_lib ''/ost/a%2520b.mp3''))
       = ''/ost/a b.mp3''
   \<and> map_option ti_url
         (fst (get_track_download_url demo_lib ''https://downloads.khinsider.com/t/one''
                 [''flac'', ''mp3''] only_mp3_world))
       = Some ''/ost/a%2520b.mp3''"
  by code_simp

section \<open>Facts about \<open>safe_request\<close>\<close>






lemma safe_request_first_ok:
  assumes "0 < rc" and "net w url (length (requests w)) = Ok r"
  shows "safe_request lb url rc rd w = (Inr (Some r), after_requests url rd 0 w)"
  unfolding safe_request_def using assms
  by (subst safe_request_from.simps) (simp add: urlopen_def after_requests_def)

section \<open>Facts about \<open>get_track_download_url\<close>\<close>

lemma scan_links_lookup:
  "scan_links lb t links d f g =
     (if g = f \<and> labelled lb links f then Some (labelled_candidate lb t links f) else d g)"
  unfolding scan_links_def labelled_def labelled_candidate_def
proof (induction links arbitrary: d)
  case Nil
  then show ?case by simp
next
  case (Cons x xs)
  show ?case
    by (auto simp: Cons.IH list_ex_iff filter_empty_conv)
qed

lemma collect_links_from:
  "foldl (scan_links lb t links) d P g =
     (if g \<in> set P \<and> labelled lb links g then Some (labelled_candidate lb t links g) else d g)"
proof (induction P arbitrary: d)
  case Nil
  then show ?case by simp
next
  case (Cons f P)
  show ?case by (simp only: foldl.simps Cons.IH) (auto simp: scan_links_lookup)
qed

lemma collect_links_lookup:
  "collect_links lb t links P g =
     (if g \<in> set P \<and> labelled lb links g then Some (labelled_candidate lb t links g) else None)"
  by (simp add: collect_links_def collect_links_from)

lemma first_available_find:
  "first_available lb P d =
     (case find (\<lambda>f. d f \<noteq> None) P of
        None \<Rightarrow> None
      | Some f \<Rightarrow> map_option (\<lambda>info. info\<lparr>ti_url := normalize_url lb (ti_url info)\<rparr>) (d f))"
  by (induction P) (auto split: option.splits)

lemma find_collect:
  "find (\<lambda>f. collect_links lb t links P f \<noteq> None) P = find (labelled lb links) P"
  by (rule find_cong) (simp_all add: collect_links_lookup)

lemma first_available_collect:
  "first_available lb P (collect_links lb t links P) =
     (case find (labelled lb links) P of
        None \<Rightarrow> None
      | Some f \<Rightarrow>
          Some ((labelled_candidate lb t links f)
                  \<lparr>ti_url := normalize_url lb (ti_url (labelled_candidate lb t links f))\<rparr>))"
proof -
  have unfolded: "first_available lb P (collect_links lb t links P) =
     (case find (labelled lb links) P of
        None \<Rightarrow> None
      | Some f \<Rightarrow> map_option (\<lambda>info. info\<lparr>ti_url := normalize_url lb (ti_url info)\<rparr>)
          (collect_links lb t links P f))"
    unfolding first_available_find find_collect ..
  show ?thesis
  proof (cases "find (labelled lb links) P")
    case None
    then show ?thesis by (simp add: unfolded)
  next
    case (Some f)
    then have "f \<in> set P" "labelled lb links f" by (auto simp: find_Some_iff)
    then have "collect_links lb t links P f = Some (labelled_candidate lb t links f)"
      by (simp add: collect_links_lookup)
    with Some show ?thesis by (simp add: unfolded)
  qed
qed

lemma resolve_labelled:
  assumes "safe_request lb url 3 5 w = (Inr (Some r), w')" and "\<not> resp_read_fails r"
    and "find (labelled lb (page_anchors (resp_page r))) P = Some f"
  shows "get_track_download_url lb url P w =
           (Some ((labelled_candidate lb (extract_title lb (resp_page r) url)
                     (page_anchors (resp_page r)) f)
                   \<lparr>ti_url := normalize_url lb
                      (the (a_href (last (filter (link_matches lb f)
                                            (page_anchors (resp_page r))))))\<rparr>),
            w')"
  using assms
  by (simp add: get_track_download_url_def Let_def first_available_collect
      labelled_candidate_def link_candidate_def)


lemma link_matches_same_upper:
  "py_upper lb g = py_upper lb f \<Longrightarrow> link_matches lb g = link_matches lb f"
  by (simp add: link_matches_def fun_eq_iff)

text \<open>
  Claim C1, as the code has it, for every \<open>str.upper\<close>, \<open>str.strip\<close>, \<open>quote\<close> and
  \<open>unquote\<close>. When the page was fetched and \<open>f\<close> is the first format of the preference
  list \<open>P\<close> with a labelled link, the resolver returns the candidate of \<open>f\<close>: the last
  link whose text contains \<open>Click here to download as\<close> followed by the upper case of
  \<open>f\<close>, with its URL normalised; so the format returned is \<open>f\<close>. The case of the token
  in \<open>P\<close> does not matter: every token with the same upper case as \<open>f\<close> has the same
  labelled links.
\<close>

theorem format_priority:
  assumes "safe_request lb url 3 5 w = (Inr (Some r), w')" and "\<not> resp_read_fails r"
    and "find (labelled lb (page_anchors (resp_page r))) P = Some f"
  shows "get_track_download_url lb url P w =
           (Some ((labelled_candidate lb (extract_title lb (resp_page r) url)
                     (page_anchors (resp_page r)) f)
                   \<lparr>ti_url := normalize_url lb
                      (the (a_href (last (filter (link_matches lb f)
                                            (page_anchors (resp_page r))))))\<rparr>),
            w')
       \<and> map_option ti_format (fst (get_track_download_url lb url P w)) = Some f
       \<and> (\<forall>g. py_upper lb g = py_upper lb f \<longrightarrow> labelled lb (page_anchors (resp_page r)) g)"
proof -
  from assms(3) have "labelled lb (page_anchors (resp_page r)) f"
    by (auto simp: find_Some_iff)
  then have "labelled lb (page_anchors (resp_page r)) g" if "py_upper lb g = py_upper lb f" for g
    using link_matches_same_upper [OF that] by (simp add: labelled_def)
  with resolve_labelled [OF assms] show ?thesis
    by (simp add: labelled_candidate_def link_candidate_def)
qed

theorem format_priority_witness:
  "get_track_download_url demo_lib ''http://x/t'' [''flac'', ''mp3''] only_mp3_world =
     (Some \<lparr>ti_url = ''/ost/a%2520b.mp3'', ti_format = ''mp3'', ti_title = ''Song'',
            ti_size = Finite (9 / 2)\<rparr>,
      after_requests ''http://x/t'' 5 0 only_mp3_world)"
proof -
  let ?r = "serving (page_with [mp3_link] None)"
  have fetch: "safe_request demo_lib ''http://x/t'' 3 5 only_mp3_world =
      (Inr (Some ?r), after_requests ''http://x/t'' 5 0 only_mp3_world)"
    by (rule safe_request_first_ok) (simp_all add: only_mp3_world_def world_of_def)
  have readable: "\<not> resp_read_fails ?r" by (simp add: serving_def)
  have found: "find (labelled demo_lib (page_anchors (resp_page ?r))) [''flac'', ''mp3'']
      = Some ''mp3''"
    by code_simp
  have cand: "(labelled_candidate demo_lib (extract_title demo_lib (resp_page ?r) ''http://x/t'')
       (page_anchors (resp_page ?r)) ''mp3'')
      \<lparr>ti_url := normalize_url demo_lib
         (the (a_href (last (filter (link_matches demo_lib ''mp3'')
                               (page_anchors (resp_page ?r))))))\<rparr> =
      \<lparr>ti_url = ''/ost/a%2520b.mp3'', ti_format = ''mp3'', ti_title = ''Song'',
       ti_size = Finite (9 / 2)\<rparr>"
    by code_simp
  from format_priority [OF fetch readable found] cand show ?thesis by simp
qed

text \<open>
  Claim C1 as stated fails on the case of the label: the token of the link text is
  compared as it is. With the preference \<open>flac, mp3\<close> and a page whose first link is
  labelled \<open>Click here to download as flac\<close>, the resolver returns the MP3 link.
\<close>

theorem lower_case_label_is_skipped:
  "fst (get_track_download_url demo_lib ''http://x/t'' [''flac'', ''mp3''] lower_label_world) =
     Some \<lparr>ti_url = ''/ost/a%2520b.mp3'', ti_format = ''mp3'', ti_title = ''Song'',
           ti_size = Finite (9 / 2)\<rparr>
   \<and> a_text (hd (page_anchors (page_with [lower_flac_link, mp3_link] None))) =
       ''Click here to download as flac''"
proof -
  let ?r = "serving (page_with [lower_flac_link, mp3_link] None)"
  have fetch: "safe_request demo_lib ''http://x/t'' 3 5 lower_label_world =
      (Inr (Some ?r), after_requests ''http://x/t'' 5 0 lower_label_world)"
    by (rule safe_request_first_ok) (simp_all add: lower_label_world_def world_of_def)
  have readable: "\<not> resp_read_fails ?r" by (simp add: serving_def)
  have found: "find (labelled demo_lib (page_anchors (resp_page ?r))) [''flac'', ''mp3'']
      = Some ''mp3''"
    by code_simp
  have cand: "(labelled_candidate demo_lib (extract_title demo_lib (resp_page ?r) ''http://x/t'')
       (page_anchors (resp_page ?r)) ''mp3'')
      \<lparr>ti_url := normalize_url demo_lib
         (the (a_href (last (filter (link_matches demo_lib ''mp3'')
                               (page_anchors (resp_page ?r))))))\<rparr> =
      \<lparr>ti_url = ''/ost/a%2520b.mp3'', ti_format = ''mp3'', ti_title = ''Song'',
       ti_size = Finite (9 / 2)\<rparr>"
    by code_simp
  have label: "a_text (hd (page_anchors (page_with [lower_flac_link, mp3_link] None))) =
       ''Click here to download as flac''"
    by code_simp
  from resolve_labelled [OF fetch readable found] cand label show ?thesis by simp
qed



section \<open>Facts about \<open>download_file\<close>\<close>

lemma read_chunks_total: "read_chunks remaining downloaded = downloaded + remaining"
proof (induction remaining downloaded rule: read_chunks.induct)
  case (1 remaining downloaded)
  show ?case
  proof (cases "min chunk_size remaining = 0")
    case True
    then have "remaining = 0" by (simp add: chunk_size_def min_def split: if_splits)
    with True show ?thesis by (subst read_chunks.simps) simp
  next
    case False
    with "1.IH" show ?thesis by (subst read_chunks.simps) simp
  qed
qed

lemma already_downloaded_fs:
  "fs w1 = fs w2 \<Longrightarrow> already_downloaded lb w1 p e = already_downloaded lb w2 p e"
  by (simp add: already_downloaded_def)

lemma can_open_same:
  "dirs w1 = dirs w2 \<Longrightarrow> writable w1 = writable w2 \<Longrightarrow> can_open lb w1 p = can_open lb w2 p"
  by (simp add: can_open_def)

lemma prefix_drop_last: "prefix (xs @ [a, b]) zs \<Longrightarrow> prefix (xs @ [a]) zs"
proof -
  assume "prefix (xs @ [a, b]) zs"
  then have "prefix ((xs @ [a]) @ [b]) zs" by simp
  then show ?thesis by (rule append_prefixD)
qed

lemma safe_request_from_requests:
  "a < rc \<Longrightarrow>
   prefix (requests w @ [url]) (requests (snd (safe_request_from lb url rc rd a w)))"
proof (induction "nat (rc - a)" arbitrary: a w)
  case 0
  then show ?case by simp
next
  case (Suc n)
  let ?w1 = "w\<lparr>requests := requests w @ [url]\<rparr>"
  let ?w2 = "?w1\<lparr>sleeps := sleeps ?w1 @ [rd]\<rparr>"
  have again: "prefix (requests w @ [url])
      (requests (snd (safe_request_from lb url rc rd (a + 1) ?w2)))" if "a < rc - 1"
  proof -
    from that Suc.hyps(2) have "n = nat (rc - (a + 1))" "a + 1 < rc" by simp_all
    then have "prefix (requests ?w2 @ [url])
        (requests (snd (safe_request_from lb url rc rd (a + 1) ?w2)))"
      by (rule Suc.hyps(1))
    then show ?thesis by (simp add: prefix_drop_last)
  qed
  show ?case
    apply (subst safe_request_from.simps)
    using Suc.prems again
    apply (auto simp: urlopen_def time_sleep_def split: outcome.splits)
    done
qed

lemma safe_request_first_ok2:
  assumes "0 < rc" and "net w url (length (requests w)) = Ok r"
  shows "safe_request lb url rc rd w = (Inr (Some r), w\<lparr>requests := requests w @ [url]\<rparr>)"
  using safe_request_first_ok [OF assms, of lb rd] by (simp add: after_requests_def)

lemma download_file_skip:
  assumes "0 < rc" and "already_downloaded lb w p e"
  shows "download_file lb url p e rc rd w = (Inr (Some True), w)"
  using assms unfolding download_file_def
  by (subst download_file_from.simps) (simp add: attempt_download_def)

lemma download_file_no_budget:
  assumes "rc \<le> 0"
  shows "download_file lb url p e rc rd w = (Inr None, w)"
  using assms unfolding download_file_def
  by (subst download_file_from.simps) simp

lemma attempt_download_requests:
  "prefix (requests w) (requests (snd (attempt_download lb url p e w)))"
proof -
  have "prefix (requests w @ [url]) (requests (snd (safe_request lb url 3 5 w)))"
    unfolding safe_request_def by (rule safe_request_from_requests) simp
  then have "prefix (requests w) (requests (snd (safe_request lb url 3 5 w)))"
    by (rule append_prefixD)
  then show ?thesis
    by (auto simp: attempt_download_def Let_def split: prod.splits sum.splits option.splits
        header.splits)
qed

lemma attempt_download_first_request:
  assumes "\<not> already_downloaded lb w p e"
  shows "prefix (requests w @ [url]) (requests (snd (attempt_download lb url p e w)))"
proof -
  have "prefix (requests w @ [url]) (requests (snd (safe_request lb url 3 5 w)))"
    unfolding safe_request_def by (rule safe_request_from_requests) simp
  with assms show ?thesis
    by (auto simp: attempt_download_def Let_def split: prod.splits sum.splits option.splits
        header.splits)
qed

lemma download_file_from_requests:
  "prefix (requests w) (requests (snd (download_file_from lb url p e rc rd a w)))"
proof (induction "nat (rc - a)" arbitrary: a w)
  case 0
  then show ?case by (subst download_file_from.simps) simp
next
  case (Suc n)
  let ?att = "attempt_download lb url p e w"
  let ?slept = "(snd ?att)\<lparr>sleeps := sleeps (snd ?att) @ [rd]\<rparr>"
  have att: "prefix (requests w) (requests (snd ?att))"
    by (rule attempt_download_requests)
  have again: "prefix (requests w)
      (requests (snd (download_file_from lb url p e rc rd (a + 1) ?slept)))" if "a < rc - 1"
  proof -
    from that Suc.hyps(2) have "n = nat (rc - (a + 1))" by simp
    then have "prefix (requests ?slept)
        (requests (snd (download_file_from lb url p e rc rd (a + 1) ?slept)))"
      by (rule Suc.hyps(1))
    with att show ?thesis by (auto intro: prefix_order.trans)
  qed
  show ?case
    apply (subst download_file_from.simps)
    using att again
    apply (auto simp: time_sleep_def split: prod.splits attempt_result.splits)
    done
qed

lemma download_file_first_request:
  assumes "0 < rc" and "\<not> already_downloaded lb w p e"
  shows "prefix (requests w @ [url]) (requests (snd (download_file lb url p e rc rd w)))"
proof -
  let ?att = "attempt_download lb url p e w"
  let ?slept = "(snd ?att)\<lparr>sleeps := sleeps (snd ?att) @ [rd]\<rparr>"
  have first: "prefix (requests w @ [url]) (requests (snd ?att))"
    using assms(2) by (rule attempt_download_first_request)
  have rest: "prefix (requests (snd ?att))
      (requests (snd (download_file_from lb url p e rc rd 1 ?slept)))"
    using download_file_from_requests [of ?slept lb url p e rc rd 1]
    by simp
  from first rest have later: "prefix (requests w @ [url])
      (requests (snd (download_file_from lb url p e rc rd 1 ?slept)))"
    by (rule prefix_order.trans)
  show ?thesis
    unfolding download_file_def
    apply (subst download_file_from.simps)
    using assms(1) first later
    apply (auto simp: time_sleep_def split: prod.splits attempt_result.splits if_splits)
    done
qed

lemma attempt_download_whole:
  assumes "net w url (length (requests w)) = Ok r" and "served_whole r"
    and "can_open lb w p" and "\<not> already_downloaded lb w p e"
  shows "attempt_download lb url p e w =
     (Complete, w\<lparr>requests := requests w @ [url], fs := (fs w)(p \<mapsto> resp_body_len r)\<rparr>)"
proof -
  have fetch: "safe_request lb url 3 5 w = (Inr (Some r), w\<lparr>requests := requests w @ [url]\<rparr>)"
    by (rule safe_request_first_ok2) (simp_all add: assms)
  have "can_open lb (w\<lparr>requests := requests w @ [url]\<rparr>) p"
    using assms(3) by (simp add: can_open_def)
  with assms fetch show ?thesis
    by (auto simp: attempt_download_def Let_def read_chunks_total served_whole_def
        split: header.splits)
qed

lemma download_file_whole:
  assumes "0 < rc" and "net w url (length (requests w)) = Ok r" and "served_whole r"
    and "can_open lb w p" and "\<not> already_downloaded lb w p e"
  shows "download_file lb url p e rc rd w =
     (Inr (Some True), w\<lparr>requests := requests w @ [url], fs := (fs w)(p \<mapsto> resp_body_len r)\<rparr>)"
  unfolding download_file_def using assms(1) attempt_download_whole [OF assms(2-5)]
  by (subst download_file_from.simps) simp

text \<open>
  Claim C3, as the code has it, for every rounding of the floating-point arithmetic.
  With an attempt budget of at least one: when a file exists at the path, the expected
  size is known and not zero, and \<open>abs(existing_size - expected_size) < 0.1\<close> holds as
  Python computes it (the size in bytes divided by \<open>1024 * 1024\<close>, the difference and
  \<open>0.1\<close> each rounded to a floating-point number), \<open>download_file\<close> returns \<open>True\<close> and
  leaves the state as it is, so nothing is requested and nothing is written. When the
  expected size is unknown (\<open>None\<close>, or the zero that stands for a size not found on
  the page), no file is looked at: the first thing \<open>download_file\<close> does is to request
  the URL, and when that request is answered with a body served whole and the file can
  be opened, the file is written anew with the bytes received and \<open>True\<close> is returned.
\<close>

theorem idempotent_skip:
  assumes "0 < rc"
  shows "(fs w p = Some bytes \<and> e \<noteq> 0
            \<and> \<bar>binary64 lb (binary64 lb (real bytes / (1024 * 1024)) - e)\<bar> < binary64 lb (1 / 10)
          \<longrightarrow> download_file lb url p (Some (Finite e)) rc rd w = (Inr (Some True), w))
       \<and> (expected = None \<or> expected = Some (Finite 0) \<longrightarrow>
            prefix (requests w @ [url])
              (requests (snd (download_file lb url p expected rc rd w))))
       \<and> ((expected = None \<or> expected = Some (Finite 0))
            \<and> net w url (length (requests w)) = Ok r \<and> served_whole r \<and> can_open lb w p
          \<longrightarrow> download_file lb url p expected rc rd w =
                (Inr (Some True),
                 w\<lparr>requests := requests w @ [url], fs := (fs w)(p \<mapsto> resp_body_len r)\<rparr>))"
proof (intro conjI impI)
  assume "fs w p = Some bytes \<and> e \<noteq> 0
    \<and> \<bar>binary64 lb (binary64 lb (real bytes / (1024 * 1024)) - e)\<bar> < binary64 lb (1 / 10)"
  then have "already_downloaded lb w p (Some (Finite e))" by (simp add: already_downloaded_def)
  with assms show "download_file lb url p (Some (Finite e)) rc rd w = (Inr (Some True), w)"
    by (rule download_file_skip)
next
  assume "expected = None \<or> expected = Some (Finite 0)"
  then have "\<not> already_downloaded lb w p expected"
    by (auto simp: already_downloaded_def split: option.splits)
  with assms show "prefix (requests w @ [url])
      (requests (snd (download_file lb url p expected rc rd w)))"
    by (rule download_file_first_request)
next
  assume a: "(expected = None \<or> expected = Some (Finite 0))
    \<and> net w url (length (requests w)) = Ok r \<and> served_whole r \<and> can_open lb w p"
  then have "\<not> already_downloaded lb w p expected"
    by (auto simp: already_downloaded_def split: option.splits)
  with assms a show "download_file lb url p expected rc rd w =
      (Inr (Some True), w\<lparr>requests := requests w @ [url], fs := (fs w)(p \<mapsto> resp_body_len r)\<rparr>)"
    by (intro download_file_whole) simp_all
qed

theorem idempotent_skip_witness:
  "download_file demo_lib ''http://x/a.flac'' ''a.flac'' (Some (Finite 10)) 3 5
     (with_file ''a.flac'' 10433331 offline_world) =
     (Inr (Some True), with_file ''a.flac'' 10433331 offline_world)
   \<and> requests (with_file ''a.flac'' 10433331 offline_world) = []
   \<and> prefix (requests offline_world @ [''http://x/a.flac''])
        (requests (snd (download_file demo_lib ''http://x/a.flac'' ''a.flac'' None 3 5
                          offline_world)))
   \<and> fst (download_file demo_lib ''http://x/a.flac'' ''a.flac'' (Some (Finite 0)) 3 5
            (with_file ''a.flac'' 3 whole_world)) = Inr (Some True)
   \<and> requests (snd (download_file demo_lib ''http://x/a.flac'' ''a.flac'' (Some (Finite 0)) 3 5
            (with_file ''a.flac'' 3 whole_world))) = [''http://x/a.flac'']
   \<and> fs (snd (download_file demo_lib ''http://x/a.flac'' ''a.flac'' (Some (Finite 0)) 3 5
            (with_file ''a.flac'' 3 whole_world))) ''a.flac'' = Some 5"
proof -
  have here: "posix_dirname ''a.flac'' = []" by code_simp
  show ?thesis
    using idempotent_skip [where rc = 3 and w = "with_file ''a.flac'' 10433331 offline_world"
        and p = "''a.flac''" and bytes = 10433331 and e = 10 and lb = demo_lib
        and url = "''http://x/a.flac''" and rd = 5 and expected = None]
      idempotent_skip [where rc = 3 and w = offline_world and p = "''a.flac''"
        and lb = demo_lib and url = "''http://x/a.flac''" and rd = 5 and expected = None]
      idempotent_skip [where rc = 3 and w = "with_file ''a.flac'' 3 whole_world"
        and p = "''a.flac''" and lb = demo_lib and url = "''http://x/a.flac''" and rd = 5
        and expected = "Some (Finite 0)"
        and r = "\<lparr>resp_content_length = HeaderInt 5, resp_body_len = 5,
                   resp_read_fails = False, resp_page = blank_page\<rparr>"]
    by (simp add: with_file_def offline_world_def whole_world_def world_of_def demo_lib_def
        demo_round_def served_whole_def can_open_def here)
qed

text \<open>
  Claim C3 as stated fails in two places. With an attempt budget of zero the loop body
  never runs: the matching file is not looked at and the function returns \<open>None\<close>, not
  success. And a size of zero read from the page (\<open>0.00 MB\<close>) is a known size that the
  test \<open>and expected_size\<close> takes for an unknown one: a file of five bytes is within
  0.1 MB of it and is requested again all the same.
\<close>

theorem no_budget_no_skip:
  "fst (download_file demo_lib ''http://x/a.flac'' ''a.flac'' (Some (Finite 10)) 0 5
     (with_file ''a.flac'' 10433331 offline_world)) = Inr None
   \<and> already_downloaded demo_lib (with_file ''a.flac'' 10433331 offline_world) ''a.flac''
        (Some (Finite 10))
   \<and> parse_size demo_lib ''Click here to download as MP3 (0.00 MB)'' = Finite 0
   \<and> requests (snd (download_file demo_lib ''http://x/a.mp3'' ''a.mp3'' (Some (Finite 0)) 3 5
        (with_file ''a.mp3'' 5 whole_world))) = [''http://x/a.mp3'']"
proof -
  have size: "parse_size demo_lib ''Click here to download as MP3 (0.00 MB)'' = Finite 0"
    by code_simp
  have near: "already_downloaded demo_lib (with_file ''a.flac'' 10433331 offline_world)
      ''a.flac'' (Some (Finite 10))"
    by (simp add: already_downloaded_def with_file_def demo_lib_def demo_round_def)
  have here: "posix_dirname ''a.mp3'' = []" by code_simp
  have again: "download_file demo_lib ''http://x/a.mp3'' ''a.mp3'' (Some (Finite 0)) 3 5
        (with_file ''a.mp3'' 5 whole_world) =
      (Inr (Some True), (with_file ''a.mp3'' 5 whole_world)
         \<lparr>requests := requests (with_file ''a.mp3'' 5 whole_world) @ [''http://x/a.mp3''],
          fs := (fs (with_file ''a.mp3'' 5 whole_world))(''a.mp3'' \<mapsto> 5)\<rparr>)"
    by (rule download_file_whole [where r = "\<lparr>resp_content_length = HeaderInt 5,
          resp_body_len = 5, resp_read_fails = False, resp_page = blank_page\<rparr>", simplified])
       (simp_all add: with_file_def whole_world_def world_of_def served_whole_def
          can_open_def demo_lib_def here already_downloaded_def)
  show ?thesis
    unfolding again using size near
    by (simp add: download_file_no_budget with_file_def whole_world_def world_of_def)
qed

lemma attempt_download_incomplete:
  assumes "net w url (length (requests w)) = Ok r"
    and "resp_content_length r = HeaderInt len" "0 < len" "len \<noteq> int (resp_body_len r)"
    and "\<not> resp_read_fails r" "can_open lb w p" "\<not> already_downloaded lb w p e"
  shows "attempt_download lb url p e w =
     (Incomplete, w\<lparr>requests := requests w @ [url], fs := (fs w)(p \<mapsto> resp_body_len r)\<rparr>)"
proof -
  have "safe_request lb url 3 5 w = (Inr (Some r), w\<lparr>requests := requests w @ [url]\<rparr>)"
    by (rule safe_request_first_ok2) (simp_all add: assms)
  moreover have "can_open lb (w\<lparr>requests := requests w @ [url]\<rparr>) p"
    using assms(6) by (simp add: can_open_def)
  ultimately show ?thesis using assms
    by (simp add: attempt_download_def Let_def read_chunks_total)
qed

text \<open>
  Claim C6 fails on the code where the short transfer ends within 0.1 MB of the
  expected size. The server advertises 10485760 bytes and the body ends after
  10433331; the size shown on the page was 10.0 MB and three attempts are configured.
  The first attempt writes the 10433331 bytes, finds the transfer incomplete, sleeps and
  goes on to the second attempt, and the skip test at the start of that attempt accepts
  the file just written: \<open>download_file\<close> returns \<open>True\<close> after one request and leaves
  the truncated file.
\<close>

theorem short_transfer_accepted:
  "fst (download_file demo_lib ''http://x/a.flac'' ''a.flac'' (Some (Finite 10)) 3 5
          nearly_whole_world) = Inr (Some True)
   \<and> requests (snd (download_file demo_lib ''http://x/a.flac'' ''a.flac'' (Some (Finite 10)) 3 5
          nearly_whole_world)) = [''http://x/a.flac'']
   \<and> sleeps (snd (download_file demo_lib ''http://x/a.flac'' ''a.flac'' (Some (Finite 10)) 3 5
          nearly_whole_world)) = [5]
   \<and> fs (snd (download_file demo_lib ''http://x/a.flac'' ''a.flac'' (Some (Finite 10)) 3 5
          nearly_whole_world)) ''a.flac'' = Some 10433331
   \<and> resp_content_length nearly_whole_transfer = HeaderInt 10485760"
proof -
  let ?w = nearly_whole_world
  let ?w1 = "?w\<lparr>requests := requests ?w @ [''http://x/a.flac''],
                 fs := (fs ?w)(''a.flac'' \<mapsto> resp_body_len nearly_whole_transfer)\<rparr>"
  let ?w2 = "?w1\<lparr>sleeps := sleeps ?w @ [5]\<rparr>"
  have here: "posix_dirname ''a.flac'' = []" by code_simp
  have first: "attempt_download demo_lib ''http://x/a.flac'' ''a.flac'' (Some (Finite 10)) ?w
      = (Incomplete, ?w1)"
    by (rule attempt_download_incomplete [where len = 10485760])
       (simp_all add: nearly_whole_world_def world_of_def nearly_whole_transfer_def
          can_open_def demo_lib_def here already_downloaded_def)
  have nap: "time_sleep demo_lib 5 ?w1 = Inr ?w2"
    by (simp add: time_sleep_def demo_lib_def)
  have second: "attempt_download demo_lib ''http://x/a.flac'' ''a.flac'' (Some (Finite 10)) ?w2
      = (Skipped, ?w2)"
    by (simp add: attempt_download_def already_downloaded_def nearly_whole_transfer_def
        demo_lib_def demo_round_def)
  have run1: "download_file_from demo_lib ''http://x/a.flac'' ''a.flac'' (Some (Finite 10)) 3 5 0 ?w
      = download_file_from demo_lib ''http://x/a.flac'' ''a.flac'' (Some (Finite 10)) 3 5 1 ?w2"
    by (subst download_file_from.simps) (simp add: first nap)
  have run2: "download_file_from demo_lib ''http://x/a.flac'' ''a.flac'' (Some (Finite 10)) 3 5 1 ?w2
      = (Inr (Some True), ?w2)"
    by (subst download_file_from.simps) (simp add: second)
  have run: "download_file demo_lib ''http://x/a.flac'' ''a.flac'' (Some (Finite 10)) 3 5 ?w
      = (Inr (Some True), ?w2)"
    unfolding download_file_def run1 run2 ..
  show ?thesis
    unfolding run
    by (simp add: nearly_whole_world_def world_of_def nearly_whole_transfer_def)
qed


end
